theory Spec2Isabelle
  imports Main "HOL-Library.AList"
begin

section \<open>The chat router of \<^verbatim>\<open>src/app.py\<close>\<close>

text \<open>
  The program is a Flask application with one stateful endpoint, \<^verbatim>\<open>chat()\<close>, one
  dispatch function, \<^verbatim>\<open>call_ai_api\<close>, and three handlers that build a prompt and
  call the dispatch function. The embedding below follows the source function by
  function:
  \<^item> Python dictionaries with a fixed set of keys are records, the process-wide
    \<^verbatim>\<open>chat_sessions\<close> dictionary is a map from user ids to session records;
  \<^item> an exception is the \<open>Inl\<close> branch of a sum;
  \<^item> the mutation of \<^verbatim>\<open>chat_sessions\<close> is explicit state passing, and every function
    that can reach \<^verbatim>\<open>requests.post\<close> also returns the list of requests it posted, so
    that "no provider call" is the statement that this list is empty;
  \<^item> what lies outside the repository (the environment variables, the HTTP transport,
    Python's \<^verbatim>\<open>str\<close> on a value that is not a string) is a field of the record \<open>env\<close>.

  Strings are lists of \<open>char\<close>, read as code points below 256; on that range
  \<^verbatim>\<open>str.strip\<close> and \<^verbatim>\<open>str.lower\<close> are defined exactly as Python defines them.
\<close>

subsection \<open>Strings\<close>

definition is_space :: "char \<Rightarrow> bool" where
  \<comment> \<open>\<^verbatim>\<open>str.isspace\<close> on the code points below 256\<close>
  "is_space c = ((of_char c :: nat) \<in> {9, 10, 11, 12, 13, 28, 29, 30, 31, 32, 133, 160})"

definition strip :: "string \<Rightarrow> string" where
  "strip s = rev (dropWhile is_space (rev (dropWhile is_space s)))"

definition lower_char :: "char \<Rightarrow> char" where
  "lower_char c =
     (let n = (of_char c :: nat)
      in if (65 \<le> n \<and> n \<le> 90) \<or> (192 \<le> n \<and> n \<le> 222 \<and> n \<noteq> 215)
         then char_of (n + 32) else c)"

definition lower :: "string \<Rightarrow> string" where
  "lower s = map lower_char s"

fun join :: "string \<Rightarrow> string list \<Rightarrow> string" where
  "join sep [] = []"
| "join sep [x] = x"
| "join sep (x # y # ys) = x @ sep @ join sep (y # ys)"

subsection \<open>Exceptions and JSON values\<close>

datatype exn =
    ValueError string
  | RequestException
  | HTTPError nat
  | JSONDecodeError
  | KeyError
  | IndexError
  | TypeError

datatype jvalue =
    JNull
  | JBool bool
  | JNum string
  | JStr string
  | JArr "jvalue list"
  | JObj "(string \<times> jvalue) list"

text \<open>
  \<open>JNum\<close> keeps the literal of a number: no branch of the program looks at it.
  \<open>JObj\<close> lists the items of a parsed object.
\<close>

fun subscript_key :: "jvalue \<Rightarrow> string \<Rightarrow> exn + jvalue" where
  \<comment> \<open>\<^verbatim>\<open>v["k"]\<close>\<close>
  "subscript_key (JObj kvs) k = (case map_of kvs k of None \<Rightarrow> Inl KeyError | Some v \<Rightarrow> Inr v)"
| "subscript_key _ k = Inl TypeError"

fun subscript_0 :: "jvalue \<Rightarrow> exn + jvalue" where
  \<comment> \<open>\<^verbatim>\<open>v[0]\<close>; the keys of a parsed object are strings, so 0 is never one\<close>
  "subscript_0 (JArr []) = Inl IndexError"
| "subscript_0 (JArr (x # xs)) = Inr x"
| "subscript_0 (JStr []) = Inl IndexError"
| "subscript_0 (JStr (c # cs)) = Inr (JStr [c])"
| "subscript_0 (JObj kvs) = Inl KeyError"
| "subscript_0 _ = Inl TypeError"

definition and_then :: "exn + 'a \<Rightarrow> ('a \<Rightarrow> exn + 'b) \<Rightarrow> exn + 'b" where
  "and_then r f = (case r of Inl e \<Rightarrow> Inl e | Inr v \<Rightarrow> f v)"

subsection \<open>Messages, provider configuration, HTTP\<close>

record msg =
  role :: string
  content :: string

record provider_config =
  url :: string
  key :: "string option"
  model :: string

record request_body =
  model :: string
  messages :: "msg list"
  max_tokens :: nat

record http_request =
  url :: string
  headers :: "(string \<times> string) list"
  json :: request_body

record http_response =
  status_code :: nat
  json :: "exn + jvalue"

text \<open>
  \<open>http_response.json\<close> is the result of \<^verbatim>\<open>response.json()\<close>, which raises on a body
  that is not JSON. The headers are an association list in insertion order, as a
  Python dictionary is.
\<close>

record env =
  OPENAI_API_KEY :: "string option"
  ANTHROPIC_API_KEY :: "string option"
  GROQ_API_KEY :: "string option"
  requests_post :: "http_request \<Rightarrow> exn + http_response"
  py_str :: "jvalue \<Rightarrow> string"

definition API_CONFIG :: "env \<Rightarrow> string \<Rightarrow> provider_config option" where
  "API_CONFIG env provider =
     (if provider = ''openai'' then
        Some \<lparr>provider_config.url = ''https://api.openai.com/v1/chat/completions'',
              key = OPENAI_API_KEY env,
              provider_config.model = ''gpt-4o''\<rparr>
      else if provider = ''anthropic'' then
        Some \<lparr>provider_config.url = ''https://api.anthropic.com/v1/messages'',
              key = ANTHROPIC_API_KEY env,
              provider_config.model = ''claude-3-5-sonnet-20241022''\<rparr>
      else if provider = ''groq'' then
        Some \<lparr>provider_config.url = ''https://api.groq.com/openai/v1/chat/completions'',
              key = GROQ_API_KEY env,
              provider_config.model = ''llama3-70b-8192''\<rparr>
      else None)"

definition raise_for_status :: "http_response \<Rightarrow> exn + unit" where
  "raise_for_status response =
     (if 400 \<le> status_code response \<and> status_code response < 600
      then Inl (HTTPError (status_code response)) else Inr ())"

definition not_configured :: "string \<Rightarrow> exn" where
  "not_configured provider =
     ValueError (''Provider '' @ provider @ '' not configured or missing API key'')"

definition call_ai_api ::
  "env \<Rightarrow> string \<Rightarrow> string \<Rightarrow> msg list \<Rightarrow> (exn + jvalue) \<times> http_request list" where
  "call_ai_api env provider prompt context =
     (case API_CONFIG env provider of
        None \<Rightarrow> (Inl (not_configured provider), [])
      | Some config \<Rightarrow>
         (case key config of
            None \<Rightarrow> (Inl (not_configured provider), [])
          | Some k \<Rightarrow>
             if k = [] then (Inl (not_configured provider), [])
             else
               let headers0 = [(''Content-Type'', ''application/json''),
                               (''Authorization'', ''Bearer '' @ k)];
                   body0 = \<lparr>request_body.model = provider_config.model config,
                            messages = context @ [\<lparr>role = ''user'', content = prompt\<rparr>],
                            max_tokens = 500\<rparr>;
                   headers1 = (if provider = ''anthropic''
                               then AList.delete ''Authorization''
                                      (AList.update ''x-api-key'' k headers0)
                               else headers0);
                   body1 = (if provider = ''anthropic''
                            then body0\<lparr>max_tokens := 500\<rparr> else body0);
                   req = \<lparr>http_request.url = provider_config.url config,
                          headers = headers1, http_request.json = body1\<rparr>
               in (and_then (requests_post env req) (\<lambda>response.
                   and_then (raise_for_status response) (\<lambda>_.
                   if provider = ''anthropic'' then
                     and_then (http_response.json response) (\<lambda>j.
                     and_then (subscript_key j ''content'') (\<lambda>c.
                     and_then (subscript_0 c) (\<lambda>c0.
                     subscript_key c0 ''text'')))
                   else
                     and_then (http_response.json response) (\<lambda>j.
                     and_then (subscript_key j ''choices'') (\<lambda>c.
                     and_then (subscript_0 c) (\<lambda>c0.
                     and_then (subscript_key c0 ''message'') (\<lambda>m.
                     subscript_key m ''content'')))))),
                   [req])))"

subsection \<open>The three handlers\<close>

text \<open>
  The f-string \<^verbatim>\<open>f"{response}<br>..."\<close> formats whatever \<^verbatim>\<open>call_ai_api\<close> returned:
  a string is inserted as it is, any other value through Python's \<^verbatim>\<open>str\<close>.
\<close>

definition format_value :: "env \<Rightarrow> jvalue \<Rightarrow> string" where
  "format_value env v = (case v of JStr s \<Rightarrow> s | _ \<Rightarrow> py_str env v)"

definition symptom_prompt :: "string list \<Rightarrow> string" where
  \<open>symptom_prompt symptoms =
     ''\<newline>'' @
     ''        You are a medical assistant analyzing symptoms for a patient in rural Kenya. The patient has reported: '' @
     join '', '' symptoms @ ''. \<newline>'' @
     ''        Provide a concise possible diagnosis (e.g., cold, flu, malaria) and recommend consulting a doctor. \<newline>'' @
     ''        Avoid definitive diagnoses; emphasize professional medical advice.\<newline>'' @
     ''    ''\<close>

definition doctor_prompt :: "string \<Rightarrow> string" where
  \<open>doctor_prompt message =
     ''\<newline>'' @
     ''        You are a medical assistant simulating a doctor consultation. The user has asked: "'' @
     message @ ''". \<newline>'' @
     ''        Provide general advice, avoid definitive diagnoses, and emphasize consulting a licensed doctor. \<newline>'' @
     ''        Keep the response concise and professional.\<newline>'' @
     ''    ''\<close>

definition patient_prompt :: "string \<Rightarrow> string" where
  \<open>patient_prompt message =
     ''\<newline>'' @
     ''        You are a friendly assistant in a patient community chat. The user shared: "'' @
     message @ ''". \<newline>'' @
     ''        Respond empathetically, encouraging sharing or advice from others, and keep the tone supportive.\<newline>'' @
     ''    ''\<close>

definition doctor_button :: string where
  \<open>doctor_button =
     ''<br><button onclick="handleChatbotOption('doctor')" class="bg-blue-500 text-white px-4 py-2 rounded hover:bg-blue-600">Connect with a Doctor</button>''\<close>

definition menu_button :: string where
  \<open>menu_button =
     ''<br><button onclick="handleChatbotOption('initial')" class="bg-blue-500 text-white px-4 py-2 rounded hover:bg-blue-600">Back to Menu</button>''\<close>

definition describe_symptoms :: string where
  "describe_symptoms = ''Please describe your symptoms (e.g., fever, cough, headache).''"

definition another_symptom :: string where
  "another_symptom = ''Please share another symptom or type 'done'.''"

text \<open>
  \<^verbatim>\<open>symptoms.append\<close> mutates the list object that the caller passed, so the handler
  returns the list as it leaves it, also when the call raises afterwards.
\<close>

definition handle_symptom_check ::
  "env \<Rightarrow> string \<Rightarrow> string list \<Rightarrow> msg list \<Rightarrow>
     (exn + string \<times> string option) \<times> string list \<times> http_request list" where
  "handle_symptom_check env message symptoms history =
     (if message = [] then (Inr (describe_symptoms, None), symptoms, [])
      else
        let symptoms1 = symptoms @ [lower message]
        in if length symptoms1 < 3 \<and> lower message \<noteq> ''done''
           then (Inr (another_symptom, None), symptoms1, [])
           else
             (case call_ai_api env ''groq'' (symptom_prompt symptoms1) history of
                (Inl e, calls) \<Rightarrow> (Inl e, symptoms1, calls)
              | (Inr response, calls) \<Rightarrow>
                  (Inr (format_value env response @ doctor_button, Some ''Llama 3.1 (Groq)''),
                   symptoms1, calls)))"

definition handle_doctor_chat ::
  "env \<Rightarrow> string \<Rightarrow> msg list \<Rightarrow> (exn + string \<times> string option) \<times> http_request list" where
  "handle_doctor_chat env message history =
     (case call_ai_api env ''anthropic'' (doctor_prompt message) history of
        (Inl e, calls) \<Rightarrow> (Inl e, calls)
      | (Inr response, calls) \<Rightarrow>
          (Inr (format_value env response @ menu_button, Some ''Claude 3.5 Sonnet''), calls))"

definition handle_patient_chat ::
  "env \<Rightarrow> string \<Rightarrow> msg list \<Rightarrow> (exn + string \<times> string option) \<times> http_request list" where
  "handle_patient_chat env message history =
     (case call_ai_api env ''openai'' (patient_prompt message) history of
        (Inl e, calls) \<Rightarrow> (Inl e, calls)
      | (Inr response, calls) \<Rightarrow>
          (Inr (format_value env response @ menu_button, Some ''ChatGPT (GPT-4o)''), calls))"

subsection \<open>The endpoint\<close>

record session =
  history :: "msg list"
  chat_state :: string
  symptoms :: "string list"

text \<open>The JSON body of a request: every key may be absent.\<close>

record chat_request =
  user_id :: "string option"
  message :: "string option"
  chat_state :: "string option"
  symptoms :: "string list option"

text \<open>
  The JSON object the endpoint returns. The validation reply has no \<^verbatim>\<open>model_used\<close>
  key (\<open>None\<close>); the others carry the key, with \<^verbatim>\<open>null\<close> as \<open>Some None\<close>.
\<close>

record chat_reply =
  response :: string
  chat_state :: string
  symptoms :: "string list"
  model_used :: "string option option"

definition menu :: string where
  \<open>menu =
     ''\<newline>'' @
     ''                Please select an option:<br>\<newline>'' @
     ''                <button onclick="handleChatbotOption('symptom')" class="bg-blue-500 text-white px-4 py-2 rounded hover:bg-blue-600">Check Symptoms</button>\<newline>'' @
     ''                <button onclick="handleChatbotOption('doctor')" class="bg-blue-500 text-white px-4 py-2 rounded hover:bg-blue-600">Talk to a Doctor</button>\<newline>'' @
     ''                <button onclick="handleChatbotOption('patient')" class="bg-blue-500 text-white px-4 py-2 rounded hover:bg-blue-600">Join Patient Community</button>\<newline>'' @
     ''            ''\<close>

definition enter_message :: string where
  "enter_message = ''Please enter a message.''"

definition invalid_state :: string where
  "invalid_state = ''Invalid state. Please start over.''"

definition apology :: string where
  "apology = ''Sorry, an error occurred. Please try again.''"

text \<open>
  The body of the \<^verbatim>\<open>try\<close> statement up to the computation of \<^verbatim>\<open>response\<close> and
  \<^verbatim>\<open>model_used\<close>, on the session of the user as the lines before it left it. It
  returns the session as the body leaves it, also when it raises: the writes made
  before the exception stay.
\<close>

definition chat_try ::
  "env \<Rightarrow> string \<Rightarrow> string \<Rightarrow> session \<Rightarrow>
     (exn + string \<times> string option) \<times> session \<times> http_request list" where
  "chat_try env chat_state' message' s =
     (if chat_state' = ''initial'' then (Inr (menu, None), s, [])
      else if chat_state' = ''symptom'' then
        (case handle_symptom_check env message' (session.symptoms s) (history s) of
           (r, symptoms1, calls) \<Rightarrow>
             let s1 = s\<lparr>session.symptoms := symptoms1\<rparr>
             in (case r of
                   Inl e \<Rightarrow> (Inl e, s1, calls)
                 | Inr (response', model_used') \<Rightarrow>
                     (Inr (response', model_used'),
                      s1\<lparr>session.symptoms :=
                            (if response' \<noteq> [] then [] else session.symptoms s1),
                          session.chat_state :=
                            (if response' \<noteq> [] then ''initial'' else ''symptom'')\<rparr>,
                      calls)))
      else if chat_state' = ''doctor'' then
        (case handle_doctor_chat env message' (history s) of
           (Inl e, calls) \<Rightarrow> (Inl e, s, calls)
         | (Inr (response', model_used'), calls) \<Rightarrow>
             (Inr (response', model_used'), s\<lparr>session.chat_state := ''initial''\<rparr>, calls))
      else if chat_state' = ''patient'' then
        (case handle_patient_chat env message' (history s) of
           (Inl e, calls) \<Rightarrow> (Inl e, s, calls)
         | (Inr (response', model_used'), calls) \<Rightarrow>
             (Inr (response', model_used'), s\<lparr>session.chat_state := ''initial''\<rparr>, calls))
      else (Inr (invalid_state, None), s, []))"

definition dict_get :: "'a option \<Rightarrow> 'a \<Rightarrow> 'a" where
  \<comment> \<open>\<^verbatim>\<open>data.get(key, default)\<close> on the key's entry\<close>
  "dict_get entry dflt = (case entry of None \<Rightarrow> dflt | Some v \<Rightarrow> v)"

text \<open>
  The endpoint: the reply, the session store after the request, and the requests
  posted to a provider. The \<^verbatim>\<open>print\<close> of the exception handler is not modelled.
\<close>

definition chat ::
  "env \<Rightarrow> (string \<rightharpoonup> session) \<Rightarrow> chat_request \<Rightarrow>
     chat_reply \<times> (string \<rightharpoonup> session) \<times> http_request list" where
  "chat env chat_sessions data =
     (let user_id' = dict_get (chat_request.user_id data) ''default'';
          message' = strip (dict_get (chat_request.message data) []);
          chat_state' = dict_get (chat_request.chat_state data) ''initial'';
          symptoms' = dict_get (chat_request.symptoms data) []
      in if message' = [] \<and> chat_state' \<noteq> ''initial'' then
           (\<lparr>response = enter_message, chat_reply.chat_state = chat_state',
             chat_reply.symptoms = symptoms', model_used = None\<rparr>,
            chat_sessions, [])
         else
           let s0 = (case chat_sessions user_id' of
                       None \<Rightarrow> \<lparr>history = [], session.chat_state = ''initial'',
                                session.symptoms = []\<rparr>
                     | Some s \<Rightarrow> s);
               s1 = s0\<lparr>history :=
                         (if message' \<noteq> []
                          then history s0 @ [\<lparr>role = ''user'', content = message'\<rparr>]
                          else history s0),
                       session.chat_state := chat_state',
                       session.symptoms := symptoms'\<rparr>
           in (case chat_try env chat_state' message' s1 of
                 (Inr (response', model_used'), s2, calls) \<Rightarrow>
                   let s3 = (if response' \<noteq> []
                             then s2\<lparr>history :=
                                      history s2 @ [\<lparr>role = ''assistant'', content = response'\<rparr>]\<rparr>
                             else s2)
                   in (\<lparr>response = response',
                        chat_reply.chat_state = session.chat_state s3,
                        chat_reply.symptoms = session.symptoms s3,
                        model_used = Some model_used'\<rparr>,
                       chat_sessions(user_id' \<mapsto> s3), calls)
               | (Inl e, s2, calls) \<Rightarrow>
                   (\<lparr>response = apology, chat_reply.chat_state = ''initial'',
                     chat_reply.symptoms = [], model_used = Some None\<rparr>,
                    chat_sessions(user_id' \<mapsto> s2), calls)))"


subsection \<open>Example environments\<close>

text \<open>
  Three transports and three environments on which the theorems below are
  instantiated: a transport that answers 500, one that answers 200 with a body of
  both reply shapes, and environments with and without credentials.
\<close>

definition transport_500 :: "http_request \<Rightarrow> exn + http_response" where
  "transport_500 req = Inr \<lparr>status_code = 500, http_response.json = Inl JSONDecodeError\<rparr>"

definition reply_body :: jvalue where
  "reply_body =
     JObj [(''content'', JArr [JObj [(''text'', JStr ''Rest and drink water.'')]]),
           (''choices'',
            JArr [JObj [(''message'', JObj [(''content'', JStr ''Rest and drink water.'')])]])]"

definition transport_200 :: "http_request \<Rightarrow> exn + http_response" where
  "transport_200 req = Inr \<lparr>status_code = 200, http_response.json = Inr reply_body\<rparr>"

definition py_str_none :: "jvalue \<Rightarrow> string" where
  "py_str_none v = ''None''"

definition env_no_keys :: env where
  "env_no_keys =
     \<lparr>OPENAI_API_KEY = None, ANTHROPIC_API_KEY = None, GROQ_API_KEY = Some [],
      requests_post = transport_200, py_str = py_str_none\<rparr>"

definition env_500 :: env where
  "env_500 =
     \<lparr>OPENAI_API_KEY = Some ''sk-o'', ANTHROPIC_API_KEY = Some ''sk-a'',
      GROQ_API_KEY = Some ''sk-g'', requests_post = transport_500, py_str = py_str_none\<rparr>"

definition env_200 :: env where
  "env_200 =
     \<lparr>OPENAI_API_KEY = Some ''sk-o'', ANTHROPIC_API_KEY = Some ''sk-a'',
      GROQ_API_KEY = Some ''sk-g'', requests_post = transport_200, py_str = py_str_none\<rparr>"

section \<open>Properties\<close>

subsection \<open>Auxiliary facts\<close>

text \<open>
  The fixed texts are not empty, so the test \<^verbatim>\<open>if response\<close> succeeds on them.
\<close>

lemma menu_nonempty: "menu \<noteq> []" by (simp add: menu_def)

lemma another_symptom_nonempty: "another_symptom \<noteq> []" by (simp add: another_symptom_def)


text \<open>
  A message of white space only is stripped to the empty string.
\<close>

lemma strip_whitespace: "(\<forall>c\<in>set m. is_space c) \<Longrightarrow> strip m = []"
proof -
  assume "\<forall>c\<in>set m. is_space c"
  then have "dropWhile is_space m = []" by (simp add: dropWhile_eq_Nil_conv)
  then show ?thesis by (simp only: strip_def rev.simps dropWhile.simps)
qed

text \<open>
  The strings of the examples.
\<close>

lemma strip_hi: "strip ''hi'' = ''hi''" by (simp add: strip_def is_space_def)

lemma strip_fever: "strip ''fever'' = ''fever''" by (simp add: strip_def is_space_def)

lemma strip_Headache: "strip '' Headache'' = ''Headache''" by (simp add: strip_def is_space_def)

lemma lower_Headache: "lower ''Headache'' = ''headache''" by code_simp

lemma lower_fever: "lower ''fever'' = ''fever''" by code_simp

lemma lower_DONE: "lower ''DONE'' = ''done''" by code_simp

lemma join_snoc: "join sep (xs @ [x]) = (if xs = [] then x else join sep xs @ sep @ x)"
  by (induction sep xs rule: join.induct) auto

text \<open>
  Overwriting the three fields of a session leaves nothing of the old one.
\<close>

lemma session_overwrite:
  "(s::session)\<lparr>history := a, session.chat_state := b, session.symptoms := c\<rparr> =
     \<lparr>history = a, session.chat_state = b, session.symptoms = c\<rparr>"
  by (cases s) simp

text \<open>
  The messages of a posted request, and the call on the environment that answers 200.
\<close>

lemma call_ai_api_requests:
  "req \<in> set (snd (call_ai_api env provider prompt context)) \<Longrightarrow>
     messages (http_request.json req) = context @ [\<lparr>role = ''user'', content = prompt\<rparr>]"
  by (simp add: call_ai_api_def Let_def split: option.splits if_splits)

lemma call_groq_200:
  "call_ai_api env_200 ''groq'' p h =
     (Inr (JStr ''Rest and drink water.''),
      [\<lparr>http_request.url = ''https://api.groq.com/openai/v1/chat/completions'',
        headers = [(''Content-Type'', ''application/json''), (''Authorization'', ''Bearer sk-g'')],
        http_request.json = \<lparr>request_body.model = ''llama3-70b-8192'',
                              messages = h @ [\<lparr>role = ''user'', content = p\<rparr>],
                              max_tokens = 500\<rparr>\<rparr>])"
  by (simp add: call_ai_api_def API_CONFIG_def env_200_def transport_200_def reply_body_def
      Let_def and_then_def raise_for_status_def)

text \<open>
  The two paths of \<^verbatim>\<open>handle_symptom_check\<close> on a message that is not empty: below the
  threshold it asks for more, from the threshold on it calls the triage provider.
\<close>

lemma handle_symptom_check_more:
  assumes "m \<noteq> []" and "length (sy @ [lower m]) < 3" and "lower m \<noteq> ''done''"
  shows "handle_symptom_check env m sy h = (Inr (another_symptom, None), sy @ [lower m], [])"
  using assms by (simp add: handle_symptom_check_def Let_def)

lemma handle_symptom_check_triage:
  assumes "m \<noteq> []" and "\<not> (length (sy @ [lower m]) < 3 \<and> lower m \<noteq> ''done'')"
  shows "handle_symptom_check env m sy h =
           (case call_ai_api env ''groq'' (symptom_prompt (sy @ [lower m])) h of
              (Inl e, calls) \<Rightarrow> (Inl e, sy @ [lower m], calls)
            | (Inr r, calls) \<Rightarrow>
                (Inr (format_value env r @ doctor_button, Some ''Llama 3.1 (Groq)''),
                 sy @ [lower m], calls))"
proof -
  have "\<not> (length (sy @ [lower m]) < 3 \<and> lower m \<noteq> ''done'')" by (rule assms(2))
  then show ?thesis
    unfolding handle_symptom_check_def Let_def using assms(1) by (simp only: if_False)
qed

text \<open>
  The endpoint on an empty message outside the initial state, and in the initial state.
\<close>

lemma enter_message_short_circuit:
  assumes "strip (dict_get (chat_request.message data) []) = []"
      and "dict_get (chat_request.chat_state data) ''initial'' \<noteq> ''initial''"
  shows "chat env chat_sessions data =
           (\<lparr>response = enter_message,
             chat_reply.chat_state = dict_get (chat_request.chat_state data) ''initial'',
             chat_reply.symptoms = dict_get (chat_request.symptoms data) [],
             model_used = None\<rparr>, chat_sessions, [])"
  using assms by (simp add: chat_def Let_def)

lemma chat_initial:
  assumes "dict_get (chat_request.chat_state data) ''initial'' = ''initial''"
      and "m = strip (dict_get (chat_request.message data) [])"
      and "u = dict_get (chat_request.user_id data) ''default''"
      and "sy = dict_get (chat_request.symptoms data) []"
      and "h = (case chat_sessions u of None \<Rightarrow> [] | Some s \<Rightarrow> history s)"
  shows "chat env chat_sessions data =
           (\<lparr>response = menu, chat_reply.chat_state = ''initial'',
             chat_reply.symptoms = sy, model_used = Some None\<rparr>,
            chat_sessions(u \<mapsto>
              \<lparr>history = h @ (if m \<noteq> [] then [\<lparr>role = ''user'', content = m\<rparr>] else []) @
                           [\<lparr>role = ''assistant'', content = menu\<rparr>],
               session.chat_state = ''initial'', session.symptoms = sy\<rparr>),
            [])"
  using assms
  by (simp add: chat_def Let_def chat_try_def session_overwrite menu_nonempty
      split: option.splits)









subsection \<open>The symptom flow\<close>

text \<open>
  A message below the threshold: the follow-up prompt is returned and no request is
  posted, but the prompt is a non-empty string, so the two conditional expressions
  after the call of \<^verbatim>\<open>handle_symptom_check\<close> take their first branch: the symptom
  list, with the symptom just appended, is replaced by the empty list, and the state
  becomes \<^verbatim>\<open>initial\<close>.
\<close>

lemma symptom_followup_general:
  assumes "chat_request.chat_state data = Some ''symptom''"
      and "m = strip (dict_get (chat_request.message data) [])" and "m \<noteq> []"
      and "u = dict_get (chat_request.user_id data) ''default''"
      and "sy = dict_get (chat_request.symptoms data) []"
      and "h = (case chat_sessions u of None \<Rightarrow> [] | Some s \<Rightarrow> history s) @
                 [\<lparr>role = ''user'', content = m\<rparr>]"
      and "length (sy @ [lower m]) < 3" and "lower m \<noteq> ''done''"
  shows "chat env chat_sessions data =
           (\<lparr>response = another_symptom, chat_reply.chat_state = ''initial'',
             chat_reply.symptoms = [], model_used = Some None\<rparr>,
            chat_sessions(u \<mapsto> \<lparr>history = h @ [\<lparr>role = ''assistant'', content = another_symptom\<rparr>],
                                  session.chat_state = ''initial'', session.symptoms = []\<rparr>),
            [])"
proof -
  have cs: "dict_get (chat_request.chat_state data) ''initial'' = ''symptom''"
    using assms(1) by (simp add: dict_get_def)
  have "handle_symptom_check env m sy h = (Inr (another_symptom, None), sy @ [lower m], [])"
    using assms(3,7,8) by (rule handle_symptom_check_more)
  then show ?thesis
    using assms(2-6) cs
    by (simp add: chat_def Let_def chat_try_def session_overwrite another_symptom_nonempty
        split: option.splits)
qed

text \<open>
  Claim C1, evaluated on the first message of its example: a session in state
  \<^verbatim>\<open>symptom\<close> with no symptom collected receives "fever". The claim says that the
  state remains \<^verbatim>\<open>symptom\<close> and that "fever" is kept; the endpoint returns and
  stores the state \<^verbatim>\<open>initial\<close> and an empty symptom list, in every environment.
\<close>

theorem symptom_followup_resets_state:
  "chat env Map.empty
     \<lparr>user_id = Some ''u1'', message = Some ''fever'',
      chat_request.chat_state = Some ''symptom'', chat_request.symptoms = Some []\<rparr> =
     (\<lparr>response = another_symptom, chat_reply.chat_state = ''initial'',
       chat_reply.symptoms = [], model_used = Some None\<rparr>,
      [''u1'' \<mapsto> \<lparr>history = [\<lparr>role = ''user'', content = ''fever''\<rparr>,
                              \<lparr>role = ''assistant'', content = another_symptom\<rparr>],
                   session.chat_state = ''initial'', session.symptoms = []\<rparr>],
      [])"
proof -
  let ?data = "\<lparr>user_id = Some ''u1'', message = Some ''fever'',
      chat_request.chat_state = Some ''symptom'', chat_request.symptoms = Some []\<rparr>"
  have m: "''fever'' = strip (dict_get (chat_request.message ?data) [])"
    by (simp add: dict_get_def strip_fever)
  have l: "lower ''fever'' \<noteq> ''done''" by (simp add: lower_fever)
  show ?thesis
    using symptom_followup_general [of ?data "''fever''" "''u1''" "[]"
        "[\<lparr>role = ''user'', content = ''fever''\<rparr>]" Map.empty env, OF _ m _ _ _ _ _ l]
    by (simp add: dict_get_def)
qed

text \<open>
  The rest of the example holds when the caller supplies the two earlier symptoms
  itself: the third message posts one request to the triage provider, and on success
  the symptom list is emptied and the state is \<^verbatim>\<open>initial\<close>.
\<close>

lemma symptom_third_message_triggers_triage:
  "chat env_200 Map.empty
     \<lparr>user_id = Some ''u1'', message = Some '' Headache'',
      chat_request.chat_state = Some ''symptom'',
      chat_request.symptoms = Some [''fever'', ''cough'']\<rparr> =
     (\<lparr>response = ''Rest and drink water.'' @ doctor_button,
       chat_reply.chat_state = ''initial'', chat_reply.symptoms = [],
       model_used = Some (Some ''Llama 3.1 (Groq)'')\<rparr>,
      [''u1'' \<mapsto> \<lparr>history = [\<lparr>role = ''user'', content = ''Headache''\<rparr>,
                              \<lparr>role = ''assistant'',
                               content = ''Rest and drink water.'' @ doctor_button\<rparr>],
                   session.chat_state = ''initial'', session.symptoms = []\<rparr>],
      snd (call_ai_api env_200 ''groq'' (symptom_prompt [''fever'', ''cough'', ''headache''])
             [\<lparr>role = ''user'', content = ''Headache''\<rparr>]))"
proof -
  have t: "\<not> (length ([''fever'', ''cough''] @ [lower ''Headache'']) < 3 \<and> lower ''Headache'' \<noteq> ''done'')"
    by simp
  have ne: "''Headache'' \<noteq> []" by simp
  have "handle_symptom_check env_200 ''Headache'' [''fever'', ''cough'']
          [\<lparr>role = ''user'', content = ''Headache''\<rparr>] =
      (Inr (''Rest and drink water.'' @ doctor_button, Some ''Llama 3.1 (Groq)''),
       [''fever'', ''cough'', ''headache''],
       snd (call_ai_api env_200 ''groq'' (symptom_prompt [''fever'', ''cough'', ''headache''])
             [\<lparr>role = ''user'', content = ''Headache''\<rparr>]))"
    using handle_symptom_check_triage [OF ne t, of env_200 "[\<lparr>role = ''user'', content = ''Headache''\<rparr>]"]
    by (simp add: lower_Headache call_groq_200 format_value_def)
  then show ?thesis
    by (simp add: chat_def Let_def chat_try_def dict_get_def strip_Headache)
qed

text \<open>
  Claim C10. In \<^verbatim>\<open>handle_symptom_check\<close> every message that is not empty is
  lowercased and appended to the symptom list before the threshold is tested. From
  the threshold on (three symptoms, or the message "done" in any case) the requests
  posted are those of the call of the \<^verbatim>\<open>groq\<close> provider on the prompt built from the
  extended list; every posted request ends with that prompt; the prompt contains the
  joined list, and the joined list ends with the lowercased message. So "done" itself
  is sent as a symptom.
\<close>

theorem lowercased_message_in_triage_prompt:
  assumes "m \<noteq> []"
  shows "fst (snd (handle_symptom_check env m sy h)) = sy @ [lower m] \<and>
         (\<not> (length (sy @ [lower m]) < 3 \<and> lower m \<noteq> ''done'') \<longrightarrow>
            snd (snd (handle_symptom_check env m sy h)) =
              snd (call_ai_api env ''groq'' (symptom_prompt (sy @ [lower m])) h)) \<and>
         (\<forall>req \<in> set (snd (snd (handle_symptom_check env m sy h))).
            messages (http_request.json req) =
              h @ [\<lparr>role = ''user'', content = symptom_prompt (sy @ [lower m])\<rparr>]) \<and>
         (\<exists>pre post. symptom_prompt (sy @ [lower m]) = pre @ join '', '' (sy @ [lower m]) @ post) \<and>
         (\<exists>pre. join '', '' (sy @ [lower m]) = pre @ lower m)"
proof -
  have a: "fst (snd (handle_symptom_check env m sy h)) = sy @ [lower m]"
    using assms by (simp add: handle_symptom_check_def Let_def split: prod.splits sum.splits)
  have b: "snd (snd (handle_symptom_check env m sy h)) =
              snd (call_ai_api env ''groq'' (symptom_prompt (sy @ [lower m])) h)"
    if "\<not> (length (sy @ [lower m]) < 3 \<and> lower m \<noteq> ''done'')"
    using handle_symptom_check_triage [OF assms that, of env h]
    by (simp split: prod.splits sum.splits)
  have c: "\<forall>req \<in> set (snd (snd (handle_symptom_check env m sy h))).
            messages (http_request.json req) =
              h @ [\<lparr>role = ''user'', content = symptom_prompt (sy @ [lower m])\<rparr>]"
  proof (cases "length (sy @ [lower m]) < 3 \<and> lower m \<noteq> ''done''")
    case True
    then show ?thesis using handle_symptom_check_more [OF assms, of sy env h] by simp
  next
    case False
    then show ?thesis using b call_ai_api_requests by simp
  qed
  have d: "\<exists>pre post. symptom_prompt (sy @ [lower m]) = pre @ join '', '' (sy @ [lower m]) @ post"
    unfolding symptom_prompt_def by (metis append.assoc)
  have e: "\<exists>pre. join '', '' (sy @ [lower m]) = pre @ lower m"
    by (cases "sy = []") (simp_all add: join_snoc)
  from a b c d e show ?thesis by blast
qed

theorem lowercased_message_in_triage_prompt_witness:
  "''DONE'' \<noteq> [] \<and>
   fst (snd (handle_symptom_check env_200 ''DONE'' [''fever''] [])) = [''fever'', ''done''] \<and>
   (\<exists>req. snd (snd (handle_symptom_check env_200 ''DONE'' [''fever''] [])) = [req] \<and>
      messages (http_request.json req) =
        [\<lparr>role = ''user'', content = symptom_prompt [''fever'', ''done'']\<rparr>]) \<and>
   join '', '' [''fever'', ''done''] = ''fever, done''"
proof -
  have ne: "''DONE'' \<noteq> []" by simp
  note t = lowercased_message_in_triage_prompt [OF ne, of env_200 "[''fever'']" "[]"]
  obtain req where r: "snd (call_ai_api env_200 ''groq'' (symptom_prompt [''fever'', ''done'']) []) = [req]"
    by (simp add: call_ai_api_def API_CONFIG_def env_200_def Let_def)
  have calls: "snd (snd (handle_symptom_check env_200 ''DONE'' [''fever''] [])) = [req]"
    using t r by (simp add: lower_DONE)
  then have "req \<in> set (snd (snd (handle_symptom_check env_200 ''DONE'' [''fever''] [])))"
    by simp
  with t have "messages (http_request.json req) =
        [] @ [\<lparr>role = ''user'', content = symptom_prompt ([''fever''] @ [lower ''DONE''])\<rparr>]"
    by blast
  then have msgs: "messages (http_request.json req) =
        [\<lparr>role = ''user'', content = symptom_prompt [''fever'', ''done'']\<rparr>]"
    by (simp add: lower_DONE)
  have "fst (snd (handle_symptom_check env_200 ''DONE'' [''fever''] [])) = [''fever'', ''done'']"
    using t by (simp add: lower_DONE)
  with calls msgs show ?thesis by simp
qed

subsection \<open>Provider dispatch\<close>

text \<open>
  Claim C7. When the provider name is not one of the configured names, or its
  credential is absent or the empty string, \<^verbatim>\<open>call_ai_api\<close> raises (the \<^verbatim>\<open>ValueError\<close>
  built by \<open>not_configured\<close>, which is what the specification calls a configuration
  error) and has posted no request. The exception is the result of the call: nothing
  inside the dispatch function catches it.
\<close>

theorem call_ai_api_unconfigured_raises:
  assumes "API_CONFIG env provider = None \<or>
           (\<exists>config. API_CONFIG env provider = Some config \<and>
                     (key config = None \<or> key config = Some []))"
  shows "call_ai_api env provider prompt context = (Inl (not_configured provider), [])"
  using assms by (auto simp: call_ai_api_def)

theorem call_ai_api_unconfigured_raises_witness:
  "API_CONFIG env_no_keys ''mistral'' = None \<and>
   call_ai_api env_no_keys ''mistral'' ''hello'' [] = (Inl (not_configured ''mistral''), []) \<and>
   key (the (API_CONFIG env_no_keys ''groq'')) = Some [] \<and>
   call_ai_api env_no_keys ''groq'' ''hello'' [] = (Inl (not_configured ''groq''), []) \<and>
   key (the (API_CONFIG env_no_keys ''openai'')) = None \<and>
   call_ai_api env_no_keys ''openai'' ''hello'' [] = (Inl (not_configured ''openai''), [])"
proof -
  have a: "API_CONFIG env_no_keys ''mistral'' = None" by (simp add: API_CONFIG_def)
  have b: "\<exists>config. API_CONFIG env_no_keys ''groq'' = Some config \<and>
                     (key config = None \<or> key config = Some [])"
    by (simp add: API_CONFIG_def env_no_keys_def)
  have c: "\<exists>config. API_CONFIG env_no_keys ''openai'' = Some config \<and>
                     (key config = None \<or> key config = Some [])"
    by (simp add: API_CONFIG_def env_no_keys_def)
  show ?thesis
    using call_ai_api_unconfigured_raises [of env_no_keys "''mistral''" "''hello''" "[]"]
      call_ai_api_unconfigured_raises [of env_no_keys "''groq''" "''hello''" "[]"]
      call_ai_api_unconfigured_raises [of env_no_keys "''openai''" "''hello''" "[]"]
      a b c
    by (simp add: API_CONFIG_def env_no_keys_def)
qed

text \<open>
  Claim C8. For a configured provider exactly one request is posted. For
  \<^verbatim>\<open>anthropic\<close> its headers are the content type and \<^verbatim>\<open>x-api-key\<close>, with no
  \<^verbatim>\<open>Authorization\<close> entry; for every other configured provider (\<^verbatim>\<open>openai\<close>, \<^verbatim>\<open>groq\<close>)
  they are the content type and the bearer \<^verbatim>\<open>Authorization\<close> entry, with no \<^verbatim>\<open>x-api-key\<close>.
\<close>

theorem auth_header_per_provider:
  assumes "API_CONFIG env provider = Some config" and "key config = Some k" and "k \<noteq> []"
  shows "\<exists>req. snd (call_ai_api env provider prompt context) = [req] \<and>
           headers req =
             (if provider = ''anthropic''
              then [(''Content-Type'', ''application/json''), (''x-api-key'', k)]
              else [(''Content-Type'', ''application/json''), (''Authorization'', ''Bearer '' @ k)])"
  using assms by (simp add: call_ai_api_def Let_def)

theorem auth_header_per_provider_witness:
  "(\<exists>req. snd (call_ai_api env_200 ''anthropic'' ''hello'' []) = [req] \<and>
      headers req = [(''Content-Type'', ''application/json''), (''x-api-key'', ''sk-a'')]) \<and>
   (\<exists>req. snd (call_ai_api env_200 ''openai'' ''hello'' []) = [req] \<and>
      headers req = [(''Content-Type'', ''application/json''), (''Authorization'', ''Bearer sk-o'')]) \<and>
   (\<exists>req. snd (call_ai_api env_200 ''groq'' ''hello'' []) = [req] \<and>
      headers req = [(''Content-Type'', ''application/json''), (''Authorization'', ''Bearer sk-g'')])"
proof -
  have a: "API_CONFIG env_200 ''anthropic'' =
      Some \<lparr>provider_config.url = ''https://api.anthropic.com/v1/messages'', key = Some ''sk-a'',
            provider_config.model = ''claude-3-5-sonnet-20241022''\<rparr>"
    by (simp add: API_CONFIG_def env_200_def)
  have o: "API_CONFIG env_200 ''openai'' =
      Some \<lparr>provider_config.url = ''https://api.openai.com/v1/chat/completions'', key = Some ''sk-o'',
            provider_config.model = ''gpt-4o''\<rparr>"
    by (simp add: API_CONFIG_def env_200_def)
  have g: "API_CONFIG env_200 ''groq'' =
      Some \<lparr>provider_config.url = ''https://api.groq.com/openai/v1/chat/completions'', key = Some ''sk-g'',
            provider_config.model = ''llama3-70b-8192''\<rparr>"
    by (simp add: API_CONFIG_def env_200_def)
  show ?thesis
    using auth_header_per_provider [OF a, of "''sk-a''" "''hello''" "[]"]
      auth_header_per_provider [OF o, of "''sk-o''" "''hello''" "[]"]
      auth_header_per_provider [OF g, of "''sk-g''" "''hello''" "[]"]
    by simp
qed

text \<open>
  Claim C9. Every request that \<^verbatim>\<open>call_ai_api\<close> posts carries as messages the supplied
  history followed by one user entry holding the prompt, and a \<^verbatim>\<open>max_tokens\<close> of 500.
\<close>

theorem payload_messages_and_budget:
  "\<forall>req \<in> set (snd (call_ai_api env provider prompt context)).
     messages (http_request.json req) = context @ [\<lparr>role = ''user'', content = prompt\<rparr>] \<and>
     max_tokens (http_request.json req) = 500"
  by (simp add: call_ai_api_def Let_def split: option.splits)

theorem payload_messages_and_budget_witness:
  "\<exists>req. snd (call_ai_api env_200 ''groq'' ''hello'' [\<lparr>role = ''assistant'', content = ''Hi''\<rparr>]) = [req] \<and>
     messages (http_request.json req) =
       [\<lparr>role = ''assistant'', content = ''Hi''\<rparr>, \<lparr>role = ''user'', content = ''hello''\<rparr>] \<and>
     max_tokens (http_request.json req) = 500"
proof -
  obtain req where r: "snd (call_ai_api env_200 ''groq'' ''hello'' [\<lparr>role = ''assistant'', content = ''Hi''\<rparr>]) = [req]"
    by (simp add: call_ai_api_def API_CONFIG_def env_200_def Let_def)
  then have "req \<in> set (snd (call_ai_api env_200 ''groq'' ''hello'' [\<lparr>role = ''assistant'', content = ''Hi''\<rparr>]))"
    by simp
  with payload_messages_and_budget [of env_200 "''groq''" "''hello''" "[\<lparr>role = ''assistant'', content = ''Hi''\<rparr>]"]
  have "messages (http_request.json req) =
       [\<lparr>role = ''assistant'', content = ''Hi''\<rparr>] @ [\<lparr>role = ''user'', content = ''hello''\<rparr>] \<and>
     max_tokens (http_request.json req) = 500" by blast
  with r show ?thesis by simp
qed

subsection \<open>The endpoint\<close>

text \<open>
  Claim C5. A request whose message is empty or consists of white space only, in a
  state other than \<^verbatim>\<open>initial\<close>, is answered with the validation text, the state and
  the symptom list of the request; the session store is unchanged and no request is
  posted.
\<close>

theorem empty_message_short_circuit:
  assumes "\<forall>c \<in> set (dict_get (chat_request.message data) []). is_space c"
      and "chat_request.chat_state data = Some cs" and "cs \<noteq> ''initial''"
  shows "chat env chat_sessions data =
           (\<lparr>response = enter_message, chat_reply.chat_state = cs,
             chat_reply.symptoms = dict_get (chat_request.symptoms data) [],
             model_used = None\<rparr>, chat_sessions, [])"
proof -
  have "strip (dict_get (chat_request.message data) []) = []"
    using assms(1) by (rule strip_whitespace)
  moreover have "dict_get (chat_request.chat_state data) ''initial'' = cs"
    using assms(2) by (simp add: dict_get_def)
  ultimately show ?thesis
    using assms(3) by (simp add: enter_message_short_circuit)
qed

theorem empty_message_short_circuit_witness:
  "list_all is_space (dict_get (Some '' '') []) \<and>
   chat env_200 [''u1'' \<mapsto> \<lparr>history = [], session.chat_state = ''initial'', session.symptoms = []\<rparr>]
     \<lparr>user_id = Some ''u1'', message = Some '' '', chat_request.chat_state = Some ''doctor'',
      chat_request.symptoms = Some [''fever'']\<rparr> =
     (\<lparr>response = enter_message, chat_reply.chat_state = ''doctor'',
       chat_reply.symptoms = [''fever''], model_used = None\<rparr>,
      [''u1'' \<mapsto> \<lparr>history = [], session.chat_state = ''initial'', session.symptoms = []\<rparr>], [])"
proof -
  have sp: "\<forall>c \<in> set (dict_get (chat_request.message
      \<lparr>user_id = Some ''u1'', message = Some '' '', chat_request.chat_state = Some ''doctor'',
      chat_request.symptoms = Some [''fever'']\<rparr>) []). is_space c"
    by (simp add: dict_get_def is_space_def)
  show ?thesis
    using empty_message_short_circuit [OF sp, of "''doctor''" env_200
      "[''u1'' \<mapsto> \<lparr>history = [], session.chat_state = ''initial'', session.symptoms = []\<rparr>]"]
    by (simp add: dict_get_def is_space_def)
qed

text \<open>
  Claim C3. In state \<^verbatim>\<open>doctor\<close>, with a message that is not empty after stripping,
  when the call of the \<^verbatim>\<open>anthropic\<close> provider raises, the reply is the apology with
  state \<^verbatim>\<open>initial\<close>, no symptoms and \<^verbatim>\<open>model_used\<close> null; the stored history is the
  earlier history followed by the user message, with no assistant entry after it.
\<close>

theorem doctor_failure_reply:
  assumes "chat_request.chat_state data = Some ''doctor''"
      and "m = strip (dict_get (chat_request.message data) [])" and "m \<noteq> []"
      and "u = dict_get (chat_request.user_id data) ''default''"
      and "h = (case chat_sessions u of None \<Rightarrow> [] | Some s \<Rightarrow> history s) @
                 [\<lparr>role = ''user'', content = m\<rparr>]"
      and "fst (call_ai_api env ''anthropic'' (doctor_prompt m) h) = Inl e"
  shows "fst (chat env chat_sessions data) =
           \<lparr>response = apology, chat_reply.chat_state = ''initial'',
            chat_reply.symptoms = [], model_used = Some None\<rparr> \<and>
         map_option history (fst (snd (chat env chat_sessions data)) u) = Some h"
proof -
  obtain calls where c: "call_ai_api env ''anthropic'' (doctor_prompt m) h = (Inl e, calls)"
    using assms(6) by (cases "call_ai_api env ''anthropic'' (doctor_prompt m) h") simp
  have cs: "dict_get (chat_request.chat_state data) ''initial'' = ''doctor''"
    using assms(1) by (simp add: dict_get_def)
  show ?thesis
    using assms(2-5) c cs
    by (simp add: chat_def Let_def chat_try_def handle_doctor_chat_def split: option.splits)
qed

theorem doctor_failure_reply_witness:
  "fst (call_ai_api env_500 ''anthropic'' (doctor_prompt ''hi'')
          [\<lparr>role = ''user'', content = ''hi''\<rparr>]) = Inl (HTTPError 500) \<and>
   fst (chat env_500 Map.empty
          \<lparr>user_id = Some ''u1'', message = Some ''hi'', chat_request.chat_state = Some ''doctor'',
           chat_request.symptoms = None\<rparr>) =
     \<lparr>response = apology, chat_reply.chat_state = ''initial'',
      chat_reply.symptoms = [], model_used = Some None\<rparr> \<and>
   map_option history (fst (snd (chat env_500 Map.empty
          \<lparr>user_id = Some ''u1'', message = Some ''hi'', chat_request.chat_state = Some ''doctor'',
           chat_request.symptoms = None\<rparr>)) ''u1'') = Some [\<lparr>role = ''user'', content = ''hi''\<rparr>]"
proof -
  let ?data = "\<lparr>user_id = Some ''u1'', message = Some ''hi'',
                chat_request.chat_state = Some ''doctor'', chat_request.symptoms = None\<rparr>"
  have f: "fst (call_ai_api env_500 ''anthropic'' (doctor_prompt ''hi'')
          [\<lparr>role = ''user'', content = ''hi''\<rparr>]) = Inl (HTTPError 500)"
    by (simp add: call_ai_api_def API_CONFIG_def env_500_def transport_500_def Let_def
        and_then_def raise_for_status_def)
  have m: "''hi'' = strip (dict_get (chat_request.message ?data) [])"
    by (simp add: dict_get_def strip_def is_space_def)
  have h: "[\<lparr>role = ''user'', content = ''hi''\<rparr>] =
      (case Map.empty ''u1'' of None \<Rightarrow> [] | Some s \<Rightarrow> history s) @ [\<lparr>role = ''user'', content = ''hi''\<rparr>]"
    by simp
  show ?thesis
    using f doctor_failure_reply [of ?data "''hi''" "''u1''" "[\<lparr>role = ''user'', content = ''hi''\<rparr>]"
        Map.empty env_500 "HTTPError 500", OF _ m _ _ h f]
    by (simp add: dict_get_def)
qed

text \<open>
  Claim C4. When the provider call raises, in any of the three states that call a
  provider, the exception handler writes nothing to the session: the stored state is
  the state of the request, the stored symptom list is the list of the request (in
  state \<^verbatim>\<open>symptom\<close> with the lowercased message appended), while the reply reports
  the state \<^verbatim>\<open>initial\<close> and no symptoms.
\<close>

theorem exception_keeps_stored_state:
  assumes "chat_request.chat_state data = Some cs"
      and "m = strip (dict_get (chat_request.message data) [])" and "m \<noteq> []"
      and "u = dict_get (chat_request.user_id data) ''default''"
      and "sy = dict_get (chat_request.symptoms data) []"
      and "h = (case chat_sessions u of None \<Rightarrow> [] | Some s \<Rightarrow> history s) @
                 [\<lparr>role = ''user'', content = m\<rparr>]"
  shows "(cs = ''doctor'' \<and> call_ai_api env ''anthropic'' (doctor_prompt m) h = (Inl e, calls) \<longrightarrow>
            chat env chat_sessions data =
              (\<lparr>response = apology, chat_reply.chat_state = ''initial'',
                chat_reply.symptoms = [], model_used = Some None\<rparr>,
               chat_sessions(u \<mapsto> \<lparr>history = h, session.chat_state = ''doctor'',
                                     session.symptoms = sy\<rparr>),
               calls)) \<and>
         (cs = ''patient'' \<and> call_ai_api env ''openai'' (patient_prompt m) h = (Inl e, calls) \<longrightarrow>
            chat env chat_sessions data =
              (\<lparr>response = apology, chat_reply.chat_state = ''initial'',
                chat_reply.symptoms = [], model_used = Some None\<rparr>,
               chat_sessions(u \<mapsto> \<lparr>history = h, session.chat_state = ''patient'',
                                     session.symptoms = sy\<rparr>),
               calls)) \<and>
         (cs = ''symptom'' \<and> \<not> (length (sy @ [lower m]) < 3 \<and> lower m \<noteq> ''done'') \<and>
          call_ai_api env ''groq'' (symptom_prompt (sy @ [lower m])) h = (Inl e, calls) \<longrightarrow>
            chat env chat_sessions data =
              (\<lparr>response = apology, chat_reply.chat_state = ''initial'',
                chat_reply.symptoms = [], model_used = Some None\<rparr>,
               chat_sessions(u \<mapsto> \<lparr>history = h, session.chat_state = ''symptom'',
                                     session.symptoms = sy @ [lower m]\<rparr>),
               calls))"
proof -
  have cs: "dict_get (chat_request.chat_state data) ''initial'' = cs"
    using assms(1) by (simp add: dict_get_def)
  have d: "cs = ''doctor'' \<Longrightarrow> call_ai_api env ''anthropic'' (doctor_prompt m) h = (Inl e, calls) \<Longrightarrow>
            chat env chat_sessions data =
              (\<lparr>response = apology, chat_reply.chat_state = ''initial'',
                chat_reply.symptoms = [], model_used = Some None\<rparr>,
               chat_sessions(u \<mapsto> \<lparr>history = h, session.chat_state = ''doctor'',
                                     session.symptoms = sy\<rparr>),
               calls)"
    using assms(2-6) cs
    by (simp add: chat_def Let_def chat_try_def handle_doctor_chat_def session_overwrite split: option.splits)
  have p: "cs = ''patient'' \<Longrightarrow> call_ai_api env ''openai'' (patient_prompt m) h = (Inl e, calls) \<Longrightarrow>
            chat env chat_sessions data =
              (\<lparr>response = apology, chat_reply.chat_state = ''initial'',
                chat_reply.symptoms = [], model_used = Some None\<rparr>,
               chat_sessions(u \<mapsto> \<lparr>history = h, session.chat_state = ''patient'',
                                     session.symptoms = sy\<rparr>),
               calls)"
    using assms(2-6) cs
    by (simp add: chat_def Let_def chat_try_def handle_patient_chat_def session_overwrite split: option.splits)
  have s: "chat env chat_sessions data =
              (\<lparr>response = apology, chat_reply.chat_state = ''initial'',
                chat_reply.symptoms = [], model_used = Some None\<rparr>,
               chat_sessions(u \<mapsto> \<lparr>history = h, session.chat_state = ''symptom'',
                                     session.symptoms = sy @ [lower m]\<rparr>),
               calls)"
    if "cs = ''symptom''" and t: "\<not> (length (sy @ [lower m]) < 3 \<and> lower m \<noteq> ''done'')"
      and c: "call_ai_api env ''groq'' (symptom_prompt (sy @ [lower m])) h = (Inl e, calls)"
  proof -
    have "handle_symptom_check env m sy h = (Inl e, sy @ [lower m], calls)"
      using handle_symptom_check_triage [OF assms(3) t, of env h] c by simp
    then show ?thesis
      using assms(2-6) cs that(1)
      by (simp add: chat_def Let_def chat_try_def session_overwrite split: option.splits)
  qed
  from d p s show ?thesis by blast
qed

theorem exception_keeps_stored_state_witness:
  "call_ai_api env_500 ''groq'' (symptom_prompt [''fever'', ''cough'', ''headache''])
       [\<lparr>role = ''user'', content = ''Headache''\<rparr>] =
     (Inl (HTTPError 500),
      snd (call_ai_api env_500 ''groq'' (symptom_prompt [''fever'', ''cough'', ''headache''])
             [\<lparr>role = ''user'', content = ''Headache''\<rparr>])) \<and>
   chat env_500 Map.empty
     \<lparr>user_id = Some ''u1'', message = Some '' Headache'',
      chat_request.chat_state = Some ''symptom'',
      chat_request.symptoms = Some [''fever'', ''cough'']\<rparr> =
     (\<lparr>response = apology, chat_reply.chat_state = ''initial'',
       chat_reply.symptoms = [], model_used = Some None\<rparr>,
      [''u1'' \<mapsto> \<lparr>history = [\<lparr>role = ''user'', content = ''Headache''\<rparr>],
                   session.chat_state = ''symptom'',
                   session.symptoms = [''fever'', ''cough'', ''headache'']\<rparr>],
      snd (call_ai_api env_500 ''groq'' (symptom_prompt [''fever'', ''cough'', ''headache''])
             [\<lparr>role = ''user'', content = ''Headache''\<rparr>]))"
proof -
  let ?data = "\<lparr>user_id = Some ''u1'', message = Some '' Headache'',
      chat_request.chat_state = Some ''symptom'',
      chat_request.symptoms = Some [''fever'', ''cough'']\<rparr>"
  let ?h = "[\<lparr>role = ''user'', content = ''Headache''\<rparr>]"
  let ?calls = "snd (call_ai_api env_500 ''groq'' (symptom_prompt [''fever'', ''cough'', ''headache'']) ?h)"
  have f: "call_ai_api env_500 ''groq'' (symptom_prompt [''fever'', ''cough'', ''headache'']) ?h =
      (Inl (HTTPError 500), ?calls)"
    by (simp add: call_ai_api_def API_CONFIG_def env_500_def transport_500_def Let_def
        and_then_def raise_for_status_def)
  have m: "''Headache'' = strip (dict_get (chat_request.message ?data) [])"
    by (simp add: dict_get_def strip_Headache)
  have sy: "[''fever'', ''cough''] = dict_get (chat_request.symptoms ?data) []"
    by (simp add: dict_get_def)
  have h: "?h = (case Map.empty ''u1'' of None \<Rightarrow> [] | Some s \<Rightarrow> history s) @ ?h"
    by simp
  have u: "''u1'' = dict_get (chat_request.user_id ?data) ''default''"
    by (simp add: dict_get_def)
  show ?thesis
    using f exception_keeps_stored_state [of ?data "''symptom''" "''Headache''" "''u1''"
        "[''fever'', ''cough'']" ?h Map.empty env_500 "HTTPError 500" ?calls, OF _ m _ u sy h]
    by (simp add: lower_Headache)
qed




text \<open>
  Claim C6, as the code has it. For a user without a session, two identical requests
  in state \<^verbatim>\<open>initial\<close> (in any two environments) get the same reply, the menu, and
  post no request. Each of them appends to the history at most one user entry (one
  when the stripped message is not empty) followed by one assistant entry holding the
  menu.
\<close>

theorem initial_requests_repeat:
  assumes "chat_sessions u = None"
      and "dict_get (chat_request.chat_state data) ''initial'' = ''initial''"
      and "m = strip (dict_get (chat_request.message data) [])"
      and "u = dict_get (chat_request.user_id data) ''default''"
      and "sy = dict_get (chat_request.symptoms data) []"
      and "turn = (if m \<noteq> [] then [\<lparr>role = ''user'', content = m\<rparr>] else []) @
                    [\<lparr>role = ''assistant'', content = menu\<rparr>]"
      and "chat env1 chat_sessions data = (reply1, sessions1, calls1)"
      and "chat env2 sessions1 data = (reply2, sessions2, calls2)"
  shows "reply1 = reply2 \<and> response reply1 = menu \<and> calls1 = [] \<and> calls2 = [] \<and>
         map_option history (sessions1 u) = Some turn \<and>
         map_option history (sessions2 u) = Some (turn @ turn) \<and>
         length (filter (\<lambda>e. role e = ''user'') turn) \<le> 1"
proof -
  have h0: "[] = (case chat_sessions u of None \<Rightarrow> [] | Some s \<Rightarrow> history s)"
    using assms(1) by simp
  have one: "chat env1 chat_sessions data =
           (\<lparr>response = menu, chat_reply.chat_state = ''initial'',
             chat_reply.symptoms = sy, model_used = Some None\<rparr>,
            chat_sessions(u \<mapsto> \<lparr>history = turn, session.chat_state = ''initial'',
                                  session.symptoms = sy\<rparr>), [])"
    using chat_initial [where chat_sessions = chat_sessions and env = env1 and h = "[]", OF assms(2,3,4,5) h0] assms(6) by simp
  with assms(7) have s1: "sessions1 = chat_sessions(u \<mapsto> \<lparr>history = turn,
      session.chat_state = ''initial'', session.symptoms = sy\<rparr>)"
    and r1: "reply1 = \<lparr>response = menu, chat_reply.chat_state = ''initial'',
             chat_reply.symptoms = sy, model_used = Some None\<rparr>" and c1: "calls1 = []"
    by simp_all
  have h1: "turn = (case sessions1 u of None \<Rightarrow> [] | Some s \<Rightarrow> history s)"
    using s1 by simp
  have two: "chat env2 sessions1 data =
           (\<lparr>response = menu, chat_reply.chat_state = ''initial'',
             chat_reply.symptoms = sy, model_used = Some None\<rparr>,
            sessions1(u \<mapsto> \<lparr>history = turn @ turn, session.chat_state = ''initial'',
                               session.symptoms = sy\<rparr>), [])"
    using chat_initial [where chat_sessions = sessions1 and env = env2 and h = turn, OF assms(2,3,4,5) h1] assms(6) by simp
  with assms(8) have s2: "sessions2 = sessions1(u \<mapsto> \<lparr>history = turn @ turn,
      session.chat_state = ''initial'', session.symptoms = sy\<rparr>)"
    and r2: "reply2 = \<lparr>response = menu, chat_reply.chat_state = ''initial'',
             chat_reply.symptoms = sy, model_used = Some None\<rparr>" and c2: "calls2 = []"
    by simp_all
  have "length (filter (\<lambda>e. role e = ''user'') turn) \<le> 1"
    using assms(6) by simp
  with s1 r1 c1 s2 r2 c2 show ?thesis by simp
qed

theorem initial_requests_repeat_witness:
  "(Map.empty :: string \<rightharpoonup> session) ''u1'' = None \<and>
   fst (chat env_200 Map.empty
          \<lparr>user_id = Some ''u1'', message = Some ''hi'',
           chat_request.chat_state = None, chat_request.symptoms = None\<rparr>) =
   fst (chat env_500
          (fst (snd (chat env_200 Map.empty
             \<lparr>user_id = Some ''u1'', message = Some ''hi'',
              chat_request.chat_state = None, chat_request.symptoms = None\<rparr>)))
          \<lparr>user_id = Some ''u1'', message = Some ''hi'',
           chat_request.chat_state = None, chat_request.symptoms = None\<rparr>) \<and>
   map_option history
     (fst (snd (chat env_500
          (fst (snd (chat env_200 Map.empty
             \<lparr>user_id = Some ''u1'', message = Some ''hi'',
              chat_request.chat_state = None, chat_request.symptoms = None\<rparr>)))
          \<lparr>user_id = Some ''u1'', message = Some ''hi'',
           chat_request.chat_state = None, chat_request.symptoms = None\<rparr>)) ''u1'') =
     Some [\<lparr>role = ''user'', content = ''hi''\<rparr>, \<lparr>role = ''assistant'', content = menu\<rparr>,
           \<lparr>role = ''user'', content = ''hi''\<rparr>, \<lparr>role = ''assistant'', content = menu\<rparr>]"
proof -
  let ?data = "\<lparr>user_id = Some ''u1'', message = Some ''hi'',
      chat_request.chat_state = None, chat_request.symptoms = None\<rparr>"
  let ?one = "chat env_200 Map.empty ?data"
  let ?two = "chat env_500 (fst (snd ?one)) ?data"
  have fresh: "(Map.empty :: string \<rightharpoonup> session) ''u1'' = None" by simp
  have cs: "dict_get (chat_request.chat_state ?data) ''initial'' = ''initial''"
    by (simp add: dict_get_def)
  have m: "''hi'' = strip (dict_get (chat_request.message ?data) [])"
    by (simp add: dict_get_def strip_hi)
  have u: "''u1'' = dict_get (chat_request.user_id ?data) ''default''"
    by (simp add: dict_get_def)
  have sy: "[] = dict_get (chat_request.symptoms ?data) []"
    by (simp add: dict_get_def)
  have t: "[\<lparr>role = ''user'', content = ''hi''\<rparr>, \<lparr>role = ''assistant'', content = menu\<rparr>] =
      (if ''hi'' \<noteq> [] then [\<lparr>role = ''user'', content = ''hi''\<rparr>] else []) @
        [\<lparr>role = ''assistant'', content = menu\<rparr>]"
    by simp
  have one: "?one = (fst ?one, fst (snd ?one), snd (snd ?one))" by simp
  have two: "?two = (fst ?two, fst (snd ?two), snd (snd ?two))" by simp
  show ?thesis
    using fresh initial_requests_repeat [OF fresh cs m u sy t one two]
    by simp
qed

text \<open>
  Claim C6 as stated fails: one request in state \<^verbatim>\<open>initial\<close> appends two entries,
  the user message and the menu, not the user message alone.
\<close>

theorem initial_history_counterexample:
  "map_option history
     (fst (snd (chat env_200 Map.empty
        \<lparr>user_id = Some ''u1'', message = Some ''hi'',
         chat_request.chat_state = Some ''initial'', chat_request.symptoms = None\<rparr>)) ''u1'') =
     Some [\<lparr>role = ''user'', content = ''hi''\<rparr>, \<lparr>role = ''assistant'', content = menu\<rparr>] \<and>
   \<not> length [\<lparr>role = ''user'', content = ''hi''\<rparr>, \<lparr>role = ''assistant'', content = menu\<rparr>] \<le> 1"
  by (simp add: chat_def Let_def chat_try_def dict_get_def strip_hi menu_nonempty)

end
